theory Spec2Isabelle
  imports Complex_Main
begin

section \<open>Reverse FFMI calculator: the page and its slider\<close>

text \<open>
  The program is a single page (\<^verbatim>\<open>Home\<close>, with its helper functions) and one component
  (\<^verbatim>\<open>SmoothSlider\<close>). Every quantity is a JavaScript \<^verbatim>\<open>number\<close>. The embedding reads a
  \<^verbatim>\<open>number\<close> as an exact \<^typ>\<open>real\<close>: \<open>+\<close>, \<open>-\<close>, \<open>*\<close> and \<open>/\<close> are the field
  operations, so the rounding error of IEEE doubles, \<^verbatim>\<open>NaN\<close> and the infinities are outside
  the model. A statement "within floating-point tolerance" is therefore proved in its
  exact form. Where the source divides, JavaScript yields a non-finite value for a zero
  divisor whereas HOL yields \<open>0\<close>; every theorem whose truth depends on the value of
  such a quotient carries the hypothesis that makes the divisor non-zero (\<open>0 < step\<close>,
  \<open>0 < width\<close>, a body-fat percentage below 100).
\<close>

subsection \<open>Library functions of the host language\<close>

text \<open>
  \<^verbatim>\<open>Math.round(x)\<close> is the integer nearest to \<open>x\<close>, a tie going to the larger one:
  \<open>\<lfloor>x + 1/2\<rfloor>\<close>. \<^verbatim>\<open>Math.pow(x, 2)\<close> is the square.
\<close>

definition Math_round :: "real \<Rightarrow> int" where
  "Math_round x = \<lfloor>x + 1 / 2\<rfloor>"

definition Math_pow :: "real \<Rightarrow> nat \<Rightarrow> real" where
  "Math_pow x n = x ^ n"

subsection \<open>The calculator\<close>

record weight_result =
  weightKg :: real
  leanMassKg :: real
  fatMassKg :: real

definition calculateTargetWeight :: "real \<Rightarrow> real \<Rightarrow> real \<Rightarrow> weight_result" where
  "calculateTargetWeight heightCm bodyFatPercent normalizedFFMI =
     (let heightMeters = heightCm / 100;
          ffmi = normalizedFFMI - 6.1 * (1.8 - heightMeters);
          leanMass = ffmi * Math_pow heightMeters 2;
          weight = leanMass / (1 - bodyFatPercent / 100);
          fatMass = weight - leanMass
      in \<lparr>weightKg = weight, leanMassKg = leanMass, fatMassKg = fatMass\<rparr>)"

text \<open>
  The five steps of the specification's algorithm, written after the specification's
  words (\<open>totalWeightKg\<close> is the field \<open>weightKg\<close> of the result), to be compared with
  the function above.
\<close>

definition spec_heightMeters :: "real \<Rightarrow> real" where
  "spec_heightMeters heightCm = heightCm / 100"

definition spec_ffmi :: "real \<Rightarrow> real \<Rightarrow> real" where
  "spec_ffmi heightCm normalizedFFMI = normalizedFFMI - 6.1 * (1.8 - spec_heightMeters heightCm)"

definition spec_leanMassKg :: "real \<Rightarrow> real \<Rightarrow> real" where
  "spec_leanMassKg heightCm normalizedFFMI =
     spec_ffmi heightCm normalizedFFMI * (spec_heightMeters heightCm)\<^sup>2"

definition spec_totalWeightKg :: "real \<Rightarrow> real \<Rightarrow> real \<Rightarrow> real" where
  "spec_totalWeightKg heightCm bodyFatPercent normalizedFFMI =
     spec_leanMassKg heightCm normalizedFFMI / (1 - bodyFatPercent / 100)"

definition spec_fatMassKg :: "real \<Rightarrow> real \<Rightarrow> real \<Rightarrow> real" where
  "spec_fatMassKg heightCm bodyFatPercent normalizedFFMI =
     spec_totalWeightKg heightCm bodyFatPercent normalizedFFMI - spec_leanMassKg heightCm normalizedFFMI"

subsection \<open>The category of a normalized FFMI\<close>

record ffmi_category =
  label :: string
  color :: string
  description :: string

definition getFFMICategory :: "real \<Rightarrow> ffmi_category" where
  "getFFMICategory normalizedFFMI =
     (if normalizedFFMI < 18 then
        \<lparr>label = ''Below Average'', color = ''text-gray-400'',
         description = ''Below average muscle mass''\<rparr>
      else if normalizedFFMI < 20 then
        \<lparr>label = ''Average'', color = ''text-blue-400'',
         description = ''Average muscle development''\<rparr>
      else if normalizedFFMI < 22 then
        \<lparr>label = ''Above Average'', color = ''text-green-400'',
         description = ''Noticeable muscle development''\<rparr>
      else if normalizedFFMI < 23 then
        \<lparr>label = ''Excellent'', color = ''text-yellow-400'',
         description = ''Excellent natural development''\<rparr>
      else if normalizedFFMI < 25 then
        \<lparr>label = ''Superior'', color = ''text-orange-400'',
         description = ''Near natural limit''\<rparr>
      else if normalizedFFMI < 26 then
        \<lparr>label = ''Natural Limit'', color = ''text-red-400'',
         description = ''At or near genetic ceiling''\<rparr>
      else
        \<lparr>label = ''Elite'', color = ''text-purple-400'',
         description = ''Likely enhanced or genetic outlier''\<rparr>)"

subsection \<open>Conversion helpers and snapping\<close>

definition inchesToCm :: "real \<Rightarrow> real" where
  "inchesToCm inches = inches * 2.54"

definition cmToInches :: "real \<Rightarrow> real" where
  "cmToInches cm = cm / 2.54"

definition kgToLbs :: "real \<Rightarrow> real" where
  "kgToLbs kg = kg * 2.20462"

text \<open>The page's \<^verbatim>\<open>snapToStep(value, min, step)\<close>; it does not clamp.\<close>

definition snapToStep :: "real \<Rightarrow> real \<Rightarrow> real \<Rightarrow> real" where
  "snapToStep v mn st =
     (let steps = Math_round ((v - mn) / st) in mn + of_int steps * st)"

text \<open>
  The specification's \<^verbatim>\<open>clamp(value, min, max) = max(min, min(max, value))\<close>. The page
  has no function of that name: \<^verbatim>\<open>handleUnitToggle\<close> writes the expression inline.
\<close>

definition spec_clamp :: "real \<Rightarrow> real \<Rightarrow> real \<Rightarrow> real" where
  "spec_clamp v mn mx = max mn (min mx v)"

subsection \<open>The page's state and the unit toggle\<close>

text \<open>
  The four \<^verbatim>\<open>useState\<close> cells of \<^verbatim>\<open>Home\<close>. The height is stored in centimetres in
  either unit system.
\<close>

record home_state =
  isImperial :: bool
  heightCm :: real
  bodyFatPercent :: real
  normalizedFFMI :: real

definition initial_state :: home_state where
  "initial_state =
     \<lparr>isImperial = True, heightCm = 178, bodyFatPercent = 12, normalizedFFMI = 20\<rparr>"

definition handleUnitToggle :: "bool \<Rightarrow> home_state \<Rightarrow> home_state" where
  "handleUnitToggle toImperial s =
     (if toImperial = isImperial s then s
      else if toImperial then
        (let inches = cmToInches (heightCm s);
             snappedInches = snapToStep inches 60 0.5;
             clampedInches = max 60 (min 84 snappedInches)
         in s\<lparr>heightCm := inchesToCm clampedInches, isImperial := toImperial\<rparr>)
      else
        (let snappedCm = snapToStep (heightCm s) 152 1;
             clampedCm = max 152 (min 213 snappedCm)
         in s\<lparr>heightCm := clampedCm, isImperial := toImperial\<rparr>))"

text \<open>
  The properties handed to a slider. \<open>min\<close>, \<open>max\<close> and \<open>value\<close> are taken in
  Isabelle, so the fields carry the suffix \<open>_prop\<close>. The callback \<^verbatim>\<open>onChange\<close> of the
  height slider is a state update and is modelled apart, as \<open>heightConfig_onChange\<close>.
\<close>

record slider_props =
  value_prop :: real
  min_prop :: real
  max_prop :: real
  step_prop :: real

definition heightConfig :: "home_state \<Rightarrow> slider_props" where
  "heightConfig s =
     (if isImperial s then
        \<lparr>value_prop = cmToInches (heightCm s), min_prop = 60, max_prop = 84, step_prop = 0.5\<rparr>
      else
        \<lparr>value_prop = heightCm s, min_prop = 152, max_prop = 213, step_prop = 1\<rparr>)"

definition heightConfig_onChange :: "home_state \<Rightarrow> real \<Rightarrow> home_state" where
  "heightConfig_onChange s v =
     (if isImperial s then s\<lparr>heightCm := inchesToCm v\<rparr> else s\<lparr>heightCm := v\<rparr>)"

subsection \<open>The slider component\<close>

definition clamp :: "slider_props \<Rightarrow> real \<Rightarrow> real" where
  "clamp p val = min (max_prop p) (max (min_prop p) val)"

text \<open>The slider's own \<^verbatim>\<open>snapToStep(val)\<close>, which closes over the properties and clamps.\<close>

definition slider_snapToStep :: "slider_props \<Rightarrow> real \<Rightarrow> real" where
  "slider_snapToStep p val =
     (let steps = Math_round ((val - min_prop p) / step_prop p)
      in clamp p (min_prop p + of_int steps * step_prop p))"

text \<open>
  The bounding rectangle of the track element, as far as the slider reads it;
  \<open>None\<close> stands for \<^verbatim>\<open>trackRef.current\<close> being null.
\<close>

record rect =
  left :: real
  width :: real

definition getValueFromPosition :: "slider_props \<Rightarrow> rect option \<Rightarrow> real \<Rightarrow> real" where
  "getValueFromPosition p track clientX =
     (case track of
        None \<Rightarrow> value_prop p
      | Some r \<Rightarrow>
          (let percentage = (clientX - left r) / width r;
               rawValue = min_prop p + percentage * (max_prop p - min_prop p)
           in slider_snapToStep p rawValue))"

text \<open>
  Each handler returns the argument of its call of \<^verbatim>\<open>onChange\<close>, or \<open>None\<close> when it
  returns without calling it.
\<close>

definition handleWheel :: "slider_props \<Rightarrow> real \<Rightarrow> real option" where
  "handleWheel p deltaY =
     (let direction = (if deltaY > 0 then - 1 else 1);
          newValue = slider_snapToStep p (value_prop p + direction * step_prop p)
      in Some newValue)"

definition handleMouseDown :: "slider_props \<Rightarrow> rect option \<Rightarrow> real \<Rightarrow> real option" where
  "handleMouseDown p track clientX = Some (getValueFromPosition p track clientX)"

definition handleMouseMove :: "slider_props \<Rightarrow> bool \<Rightarrow> rect option \<Rightarrow> real \<Rightarrow> real option" where
  "handleMouseMove p isDragging track clientX =
     (if \<not> isDragging then None else Some (getValueFromPosition p track clientX))"

definition handleKeyDown :: "slider_props \<Rightarrow> string \<Rightarrow> real option" where
  "handleKeyDown p key =
     (if key = ''ArrowRight'' \<or> key = ''ArrowUp'' then
        Some (slider_snapToStep p (value_prop p + step_prop p))
      else if key = ''ArrowLeft'' \<or> key = ''ArrowDown'' then
        Some (slider_snapToStep p (value_prop p - step_prop p))
      else if key = ''Home'' then Some (min_prop p)
      else if key = ''End'' then Some (max_prop p)
      else if key = ''PageUp'' then
        Some (slider_snapToStep p (value_prop p + step_prop p * 10))
      else if key = ''PageDown'' then
        Some (slider_snapToStep p (value_prop p - step_prop p * 10))
      else None)"

text \<open>
  The events the component listens to. A pointer event carries the horizontal
  position and the track rectangle read when it is handled.
\<close>

datatype slider_event =
    Wheel real
  | MouseDown real "rect option"
  | MouseMove real "rect option"
  | MouseUp
  | KeyDown string

text \<open>
  One event: the new drag flag and the value proposed to the caller, if any.
  \<^verbatim>\<open>handleMouseDown\<close> sets the flag, \<^verbatim>\<open>handleMouseUp\<close> clears it.
\<close>

fun slider_handle :: "slider_props \<Rightarrow> bool \<Rightarrow> slider_event \<Rightarrow> bool \<times> real option" where
  "slider_handle p isDragging (Wheel deltaY) = (isDragging, handleWheel p deltaY)"
| "slider_handle p isDragging (MouseDown clientX track) = (True, handleMouseDown p track clientX)"
| "slider_handle p isDragging (MouseMove clientX track) =
     (isDragging, handleMouseMove p isDragging track clientX)"
| "slider_handle p isDragging MouseUp = (False, None)"
| "slider_handle p isDragging (KeyDown key) = (isDragging, handleKeyDown p key)"

text \<open>
  The slider is controlled: after \<^verbatim>\<open>onChange(v)\<close> the caller supplies the next
  \<^verbatim>\<open>value\<close>. \<open>slider_run caller\<close> feeds a sequence of events to the slider and
  collects the values passed to \<^verbatim>\<open>onChange\<close>, the caller re-supplying \<open>caller v\<close>.
\<close>

fun slider_run ::
  "(real \<Rightarrow> real) \<Rightarrow> slider_props \<Rightarrow> bool \<Rightarrow> slider_event list \<Rightarrow> real list" where
  "slider_run caller p isDragging [] = []"
| "slider_run caller p isDragging (e # es) =
     (case slider_handle p isDragging e of
        (d, None) \<Rightarrow> slider_run caller p d es
      | (d, Some v) \<Rightarrow> v # slider_run caller (p\<lparr>value_prop := caller v\<rparr>) d es)"

text \<open>
  The height slider mounted in the page: an event of the slider, configured by
  \<open>heightConfig\<close>, whose proposed value goes through \<open>heightConfig_onChange\<close>.
\<close>

definition height_slider_event :: "home_state \<Rightarrow> bool \<Rightarrow> slider_event \<Rightarrow> home_state" where
  "height_slider_event s isDragging e =
     (case snd (slider_handle (heightConfig s) isDragging e) of
        None \<Rightarrow> s
      | Some v \<Rightarrow> heightConfig_onChange s v)"

subsection \<open>Vocabulary of the properties\<close>

text \<open>
  \<open>on_step_grid v mn st\<close>: the distance of \<open>v\<close> from \<open>mn\<close> is a whole number of steps
  \<open>st\<close>. The quotient is compared with its own floor, which evaluates on concrete
  numbers; \<open>on_step_grid_iff\<close> below gives the reading "\<open>v - mn = k * st\<close> for an
  integer \<open>k\<close>".
\<close>

definition on_step_grid :: "real \<Rightarrow> real \<Rightarrow> real \<Rightarrow> bool" where
  "on_step_grid v mn st = (let q = (v - mn) / st in of_int \<lfloor>q\<rfloor> = q)"

text \<open>
  What every proposal of a slider satisfies: it lies in the range, and it is on the
  step grid anchored at \<open>min\<close> or it is \<open>max\<close> itself.
\<close>

definition proposal_ok :: "slider_props \<Rightarrow> real \<Rightarrow> bool" where
  "proposal_ok p v =
     (min_prop p \<le> v \<and> v \<le> max_prop p
      \<and> (v = max_prop p \<or> on_step_grid v (min_prop p) (step_prop p)))"


text \<open>
  A pointer event is laid out when the track element is mounted and its rectangle has
  a positive width, so that the quotient in \<open>getValueFromPosition\<close> is a number. The
  other events read no geometry.
\<close>

fun pointer_laid_out :: "slider_event \<Rightarrow> bool" where
  "pointer_laid_out (MouseDown clientX track) =
     (case track of None \<Rightarrow> False | Some r \<Rightarrow> 0 < width r)"
| "pointer_laid_out (MouseMove clientX track) =
     (case track of None \<Rightarrow> False | Some r \<Rightarrow> 0 < width r)"
| "pointer_laid_out (Wheel deltaY) = True"
| "pointer_laid_out MouseUp = True"
| "pointer_laid_out (KeyDown key) = True"

text \<open>
  The range of the stored height by unit system: 60 to 84 inches, which is 152.4 to
  213.36 cm, in the imperial system and 152 to 213 cm in the metric one.
\<close>

definition stored_height_ok :: "home_state \<Rightarrow> bool" where
  "stored_height_ok s =
     (if isImperial s then 152.4 \<le> heightCm s \<and> heightCm s \<le> 213.36
      else 152 \<le> heightCm s \<and> heightCm s \<le> 213)"

section \<open>The calculator's formula\<close>

lemma calculateTargetWeight_fields:
  "leanMassKg (calculateTargetWeight h bf n) = (n - 6.1 * (1.8 - h / 100)) * (h / 100)\<^sup>2"
  "weightKg (calculateTargetWeight h bf n) =
     (n - 6.1 * (1.8 - h / 100)) * (h / 100)\<^sup>2 / (1 - bf / 100)"
  "fatMassKg (calculateTargetWeight h bf n) =
     (n - 6.1 * (1.8 - h / 100)) * (h / 100)\<^sup>2 / (1 - bf / 100)
       - (n - 6.1 * (1.8 - h / 100)) * (h / 100)\<^sup>2"
  by (simp_all add: calculateTargetWeight_def Math_pow_def Let_def)

text \<open>
  Claim C1, as the specification states it, includes the scenario "height 178 cm,
  12 % body fat, normalized FFMI 20 gives a lean mass of 62.97 kg, to within 0.01".
  The formula gives 19.878 * 1.78 * 1.78 = 62.9814552, which is more than 0.01 away from
  62.97.
\<close>

theorem calculateTargetWeight_scenario_counterexample:
  "\<not> \<bar>leanMassKg (calculateTargetWeight 178 12 20) - 62.97\<bar> \<le> 0.01"
  by (simp add: calculateTargetWeight_fields power2_eq_square)

text \<open>
  Claim C1, amended: for every height, body-fat percentage and normalized FFMI,
  \<open>calculateTargetWeight\<close> returns exactly what the five steps of the specification
  compute; for height 178, body fat 12 and normalized FFMI 20 the lean mass is
  62.9814552 (62.98 to within 0.01), the total weight is 71.56 to within 0.05 and the
  fat mass is 8.59 to within 0.01.
\<close>

theorem calculateTargetWeight_formula:
  "calculateTargetWeight h bf n =
     \<lparr>weightKg = spec_totalWeightKg h bf n, leanMassKg = spec_leanMassKg h n,
      fatMassKg = spec_fatMassKg h bf n\<rparr>
   \<and> leanMassKg (calculateTargetWeight 178 12 20) = 62.9814552
   \<and> \<bar>leanMassKg (calculateTargetWeight 178 12 20) - 62.98\<bar> \<le> 0.01
   \<and> \<bar>weightKg (calculateTargetWeight 178 12 20) - 71.56\<bar> \<le> 0.05
   \<and> \<bar>fatMassKg (calculateTargetWeight 178 12 20) - 8.59\<bar> \<le> 0.01"
proof -
  have "calculateTargetWeight h bf n =
     \<lparr>weightKg = spec_totalWeightKg h bf n, leanMassKg = spec_leanMassKg h n,
      fatMassKg = spec_fatMassKg h bf n\<rparr>"
    by (simp add: calculateTargetWeight_def Math_pow_def Let_def spec_totalWeightKg_def
        spec_leanMassKg_def spec_fatMassKg_def spec_ffmi_def spec_heightMeters_def)
  moreover have "leanMassKg (calculateTargetWeight 178 12 20) = 62.9814552"
    by (simp add: calculateTargetWeight_fields power2_eq_square)
  moreover have "\<bar>leanMassKg (calculateTargetWeight 178 12 20) - 62.98\<bar> \<le> 0.01"
    by (simp add: calculateTargetWeight_fields power2_eq_square)
  moreover have "\<bar>weightKg (calculateTargetWeight 178 12 20) - 71.56\<bar> \<le> 0.05"
    by (simp add: calculateTargetWeight_fields power2_eq_square)
  moreover have "\<bar>fatMassKg (calculateTargetWeight 178 12 20) - 8.59\<bar> \<le> 0.01"
    by (simp add: calculateTargetWeight_fields power2_eq_square)
  ultimately show ?thesis by blast
qed

section \<open>The parts of the weight\<close>

lemma leanMassKg_nonneg:
  assumes "152 \<le> h" "15 \<le> n"
  shows "0 \<le> leanMassKg (calculateTargetWeight h bf n)"
proof -
  have "0 \<le> n - 6.1 * (1.8 - h / 100)" using assms by simp
  then show ?thesis
    unfolding calculateTargetWeight_fields by (intro mult_nonneg_nonneg) simp_all
qed

text \<open>
  Claim C4: for a height in [152, 213], a body-fat percentage in [5, 35] and a
  normalized FFMI in [15, 30], the total weight is the lean mass plus the fat mass
  (exactly, hence within a relative tolerance of one billionth), and neither the lean mass nor
  the fat mass is negative.
\<close>

theorem calculateTargetWeight_sum_nonneg:
  assumes "152 \<le> h" "h \<le> 213" "5 \<le> bf" "bf \<le> 35" "15 \<le> n" "n \<le> 30"
  shows "weightKg (calculateTargetWeight h bf n) =
           leanMassKg (calculateTargetWeight h bf n) + fatMassKg (calculateTargetWeight h bf n)
       \<and> \<bar>weightKg (calculateTargetWeight h bf n) -
           (leanMassKg (calculateTargetWeight h bf n) + fatMassKg (calculateTargetWeight h bf n))\<bar>
           \<le> 1 / 10 ^ 9 * \<bar>weightKg (calculateTargetWeight h bf n)\<bar>
       \<and> 0 \<le> leanMassKg (calculateTargetWeight h bf n)
       \<and> 0 \<le> fatMassKg (calculateTargetWeight h bf n)"
proof -
  let ?r = "calculateTargetWeight h bf n"
  have sum: "weightKg ?r = leanMassKg ?r + fatMassKg ?r"
    by (simp add: calculateTargetWeight_fields)
  have lean: "0 \<le> leanMassKg ?r"
    using assms by (simp add: leanMassKg_nonneg)
  have d: "0 < 1 - bf / 100" "1 - bf / 100 \<le> 1" using assms by simp_all
  have w: "weightKg ?r = leanMassKg ?r / (1 - bf / 100)"
    by (simp add: calculateTargetWeight_fields)
  have "leanMassKg ?r \<le> leanMassKg ?r / (1 - bf / 100)"
    using lean d by (simp add: pos_le_divide_eq mult_left_le)
  then have fat: "0 \<le> fatMassKg ?r"
    using sum w by linarith
  from sum lean fat show ?thesis by simp
qed

theorem calculateTargetWeight_sum_nonneg_witness:
  "(152::real) \<le> 178 \<and> (178::real) \<le> 213 \<and> (5::real) \<le> 12 \<and> (12::real) \<le> 35
   \<and> (15::real) \<le> 20 \<and> (20::real) \<le> 30
   \<and> weightKg (calculateTargetWeight 178 12 20) =
       leanMassKg (calculateTargetWeight 178 12 20) + fatMassKg (calculateTargetWeight 178 12 20)
   \<and> 0 \<le> leanMassKg (calculateTargetWeight 178 12 20)
   \<and> 0 \<le> fatMassKg (calculateTargetWeight 178 12 20)"
  using calculateTargetWeight_sum_nonneg [of 178 12 20] by simp

section \<open>The categories\<close>

text \<open>
  Claim C6: \<open>getFFMICategory\<close> sorts every real number into one of seven bands, each
  closed on the left and open on the right: below 18 "Below Average", [18, 20)
  "Average", [20, 22) "Above Average", [22, 23) "Excellent", [23, 25) "Superior",
  [25, 26) "Natural Limit", and from 26 on "Elite". The bands cover the line and do
  not overlap, so exactly one applies.
\<close>

theorem getFFMICategory_bands:
  "(x < 18 \<longrightarrow> label (getFFMICategory x) = ''Below Average'')
   \<and> (18 \<le> x \<and> x < 20 \<longrightarrow> label (getFFMICategory x) = ''Average'')
   \<and> (20 \<le> x \<and> x < 22 \<longrightarrow> label (getFFMICategory x) = ''Above Average'')
   \<and> (22 \<le> x \<and> x < 23 \<longrightarrow> label (getFFMICategory x) = ''Excellent'')
   \<and> (23 \<le> x \<and> x < 25 \<longrightarrow> label (getFFMICategory x) = ''Superior'')
   \<and> (25 \<le> x \<and> x < 26 \<longrightarrow> label (getFFMICategory x) = ''Natural Limit'')
   \<and> (26 \<le> x \<longrightarrow> label (getFFMICategory x) = ''Elite'')"
  by (simp add: getFFMICategory_def)

text \<open>
  The bands at the values the specification names: 17.9, 18.0, 25.999 and 26.0, and at
  the left ends 20, 22 and 23.
\<close>

theorem getFFMICategory_bands_witness:
  "label (getFFMICategory 17.9) = ''Below Average''
   \<and> label (getFFMICategory 18.0) = ''Average''
   \<and> label (getFFMICategory 20) = ''Above Average''
   \<and> label (getFFMICategory 22) = ''Excellent''
   \<and> label (getFFMICategory 23) = ''Superior''
   \<and> label (getFFMICategory 25.999) = ''Natural Limit''
   \<and> label (getFFMICategory 26.0) = ''Elite''"
  using getFFMICategory_bands [of "17.9"] getFFMICategory_bands [of "18.0"]
    getFFMICategory_bands [of 20] getFFMICategory_bands [of 22]
    getFFMICategory_bands [of 23] getFFMICategory_bands [of "25.999"]
    getFFMICategory_bands [of "26.0"]
  by simp

section \<open>Snapping and unit conversion\<close>

lemma Math_round_of_int: "Math_round (of_int k) = k"
  unfolding Math_round_def by linarith

lemma snapToStep_on_grid:
  "st \<noteq> 0 \<Longrightarrow> snapToStep (mn + of_int k * st) mn st = mn + of_int k * st"
  by (simp add: snapToStep_def Math_round_of_int)

text \<open>
  Claim C7: for a positive step, snapping a snapped value changes nothing, and a
  snapped value differs from \<open>min\<close> by a whole number of steps.
\<close>

theorem snapToStep_idempotent:
  assumes "0 < st"
  shows "snapToStep (snapToStep v mn st) mn st = snapToStep v mn st
       \<and> (\<exists>k::int. snapToStep v mn st - mn = of_int k * st)"
proof
  define k where "k = Math_round ((v - mn) / st)"
  have grid: "snapToStep v mn st = mn + of_int k * st"
    by (simp add: snapToStep_def k_def)
  from assms have "st \<noteq> 0" by simp
  then show "snapToStep (snapToStep v mn st) mn st = snapToStep v mn st"
    unfolding grid by (rule snapToStep_on_grid)
  from grid show "\<exists>k::int. snapToStep v mn st - mn = of_int k * st"
    by simp
qed

theorem snapToStep_idempotent_witness:
  "(0::real) < 0.5
   \<and> snapToStep (snapToStep 70.08 60 0.5) 60 0.5 = snapToStep 70.08 60 0.5
   \<and> (\<exists>k::int. snapToStep 70.08 60 0.5 - 60 = of_int k * 0.5)"
  using snapToStep_idempotent [of "0.5" "70.08" 60] by simp

text \<open>
  Claim C8: \<open>inchesToCm\<close> multiplies by 2.54, \<open>cmToInches\<close> divides by 2.54, and each
  undoes the other. Over the reals this holds exactly and for every \<open>x\<close>, in
  particular for every \<open>x > 0\<close>.
\<close>

theorem inchesToCm_cmToInches_inverse:
  "inchesToCm (cmToInches x) = x \<and> cmToInches (inchesToCm x) = x
   \<and> inchesToCm x = x * 2.54 \<and> cmToInches x = x / 2.54"
  by (simp add: inchesToCm_def cmToInches_def)

section \<open>The unit toggle\<close>

text \<open>
  Claim C10: toggling to the unit system that is already active changes nothing:
  the whole state, hence the stored height and the unit flag, stays as it was.
\<close>

theorem handleUnitToggle_same_unit:
  "toImperial = isImperial s \<Longrightarrow>
     handleUnitToggle toImperial s = s
     \<and> heightCm (handleUnitToggle toImperial s) = heightCm s
     \<and> isImperial (handleUnitToggle toImperial s) = isImperial s"
  by (simp add: handleUnitToggle_def)

theorem handleUnitToggle_same_unit_witness:
  "True = isImperial initial_state
   \<and> handleUnitToggle True initial_state = initial_state
   \<and> heightCm (handleUnitToggle True initial_state) = 178
   \<and> isImperial (handleUnitToggle True initial_state)"
  using handleUnitToggle_same_unit [of True initial_state]
  by (simp add: initial_state_def)

text \<open>
  Claim C5: a toggle to the other unit system converts the stored height to the
  target unit, snaps it to the target step and then clamps it to the target range, in
  that order: to imperial, \<open>cmToInches\<close>, step 0.5, range [60, 84], the result being
  stored as \<open>inchesToCm\<close> of the clamped inches; to metric, the stored height is in
  centimetres already, step 1, range [152, 213]. The value handed to the height slider
  afterwards is the clamped value in the target unit.
\<close>

theorem handleUnitToggle_convert_snap_clamp:
  "(\<not> isImperial s \<longrightarrow>
      heightCm (handleUnitToggle True s) =
        inchesToCm (spec_clamp (snapToStep (cmToInches (heightCm s)) 60 0.5) 60 84)
      \<and> value_prop (heightConfig (handleUnitToggle True s)) =
        spec_clamp (snapToStep (cmToInches (heightCm s)) 60 0.5) 60 84
      \<and> isImperial (handleUnitToggle True s))
   \<and> (isImperial s \<longrightarrow>
      heightCm (handleUnitToggle False s) = spec_clamp (snapToStep (heightCm s) 152 1) 152 213
      \<and> value_prop (heightConfig (handleUnitToggle False s)) =
        spec_clamp (snapToStep (heightCm s) 152 1) 152 213
      \<and> \<not> isImperial (handleUnitToggle False s))"
  by (simp add: handleUnitToggle_def heightConfig_def spec_clamp_def Let_def
      inchesToCm_def cmToInches_def)

text \<open>
  The scenario of the specification: from 178 cm in the metric system, 178 / 2.54 is
  not 70, the snap to half inches gives 70, the clamp leaves 70, and the slider shows
  70 inches (stored as 177.8 cm). Back to metric from 213.36 cm gives 213 cm.
\<close>

theorem handleUnitToggle_convert_snap_clamp_witness:
  "\<not> isImperial (initial_state\<lparr>isImperial := False\<rparr>)
   \<and> cmToInches 178 \<noteq> 70
   \<and> snapToStep (cmToInches 178) 60 0.5 = 70
   \<and> spec_clamp 70 60 84 = 70
   \<and> value_prop (heightConfig (handleUnitToggle True (initial_state\<lparr>isImperial := False\<rparr>))) = 70
   \<and> heightCm (handleUnitToggle True (initial_state\<lparr>isImperial := False\<rparr>)) = 177.8
   \<and> isImperial (initial_state\<lparr>isImperial := True, heightCm := 213.36\<rparr>)
   \<and> heightCm (handleUnitToggle False (initial_state\<lparr>isImperial := True, heightCm := 213.36\<rparr>)) = 213"
  using handleUnitToggle_convert_snap_clamp [of "initial_state\<lparr>isImperial := False\<rparr>"]
    handleUnitToggle_convert_snap_clamp [of "initial_state\<lparr>isImperial := True, heightCm := 213.36\<rparr>"]
  by (simp add: initial_state_def snapToStep_def Math_round_def spec_clamp_def cmToInches_def
      inchesToCm_def)

section \<open>The slider\<close>




lemma on_step_grid_iff:
  assumes "st \<noteq> 0"
  shows "on_step_grid v mn st \<longleftrightarrow> (\<exists>k::int. v - mn = of_int k * st)"
proof
  assume "on_step_grid v mn st"
  then have "of_int \<lfloor>(v - mn) / st\<rfloor> = (v - mn) / st"
    by (simp add: on_step_grid_def)
  then have "of_int \<lfloor>(v - mn) / st\<rfloor> * st = (v - mn) / st * st"
    by (rule arg_cong [where f = "\<lambda>x. x * st"])
  also from assms have "\<dots> = v - mn" by simp
  finally have "v - mn = of_int \<lfloor>(v - mn) / st\<rfloor> * st" by (rule sym)
  then show "\<exists>k::int. v - mn = of_int k * st" ..
next
  assume "\<exists>k::int. v - mn = of_int k * st"
  then obtain k :: int where "v - mn = of_int k * st" ..
  with assms have "(v - mn) / st = of_int k" by simp
  then show "on_step_grid v mn st"
    by (simp add: on_step_grid_def)
qed

lemma on_step_grid_min: "on_step_grid mn mn st"
  by (simp add: on_step_grid_def)

lemma on_step_grid_steps: "st \<noteq> 0 \<Longrightarrow> on_step_grid (mn + of_int k * st) mn st"
  by (simp add: on_step_grid_def)

lemma clamp_in_range:
  "min_prop p \<le> max_prop p \<Longrightarrow> min_prop p \<le> clamp p v \<and> clamp p v \<le> max_prop p"
  by (simp add: clamp_def)

lemma clamp_cases: "clamp p v = v \<or> clamp p v = min_prop p \<or> clamp p v = max_prop p"
  by (auto simp: clamp_def min_def max_def)

lemma clamp_on_step_grid:
  assumes "on_step_grid v (min_prop p) st"
  shows "clamp p v = max_prop p \<or> on_step_grid (clamp p v) (min_prop p) st"
  using clamp_cases [of p v] assms on_step_grid_min [of "min_prop p" st] by auto

lemma slider_snapToStep_ok:
  assumes "min_prop p \<le> max_prop p" "0 < step_prop p"
  shows "proposal_ok p (slider_snapToStep p v)"
proof -
  from assms(2) have "step_prop p \<noteq> 0" by simp
  then have "on_step_grid (min_prop p + of_int (Math_round ((v - min_prop p) / step_prop p)) * step_prop p)
      (min_prop p) (step_prop p)"
    by (rule on_step_grid_steps)
  then have "slider_snapToStep p v = max_prop p
      \<or> on_step_grid (slider_snapToStep p v) (min_prop p) (step_prop p)"
    unfolding slider_snapToStep_def Let_def by (rule clamp_on_step_grid)
  moreover have "min_prop p \<le> slider_snapToStep p v \<and> slider_snapToStep p v \<le> max_prop p"
    unfolding slider_snapToStep_def Let_def using assms(1) by (rule clamp_in_range)
  ultimately show ?thesis by (simp add: proposal_ok_def)
qed

lemma slider_handle_ok:
  assumes "min_prop p \<le> max_prop p" "0 < step_prop p"
    "pointer_laid_out e" "slider_handle p d e = (d', Some v)"
  shows "proposal_ok p v"
proof (cases e)
  case (Wheel deltaY)
  with assms(4) have "v = slider_snapToStep p (value_prop p + (if deltaY > 0 then - 1 else 1) * step_prop p)"
    by (simp add: handleWheel_def Let_def)
  then show ?thesis using slider_snapToStep_ok [OF assms(1,2)] by simp
next
  case (MouseDown clientX track)
  with assms(3) obtain r where "track = Some r" by (cases track) simp_all
  with MouseDown assms(4) show ?thesis
    using slider_snapToStep_ok [OF assms(1,2)]
    by (auto simp: handleMouseDown_def getValueFromPosition_def Let_def)
next
  case (MouseMove clientX track)
  with assms(3) obtain r where "track = Some r" by (cases track) simp_all
  with MouseMove assms(4) show ?thesis
    using slider_snapToStep_ok [OF assms(1,2)]
    by (auto simp: handleMouseMove_def getValueFromPosition_def Let_def split: if_splits)
next
  case MouseUp
  with assms(4) show ?thesis by simp
next
  case (KeyDown key)
  have "proposal_ok p (min_prop p)" "proposal_ok p (max_prop p)"
    using assms(1) by (simp_all add: proposal_ok_def on_step_grid_min)
  with KeyDown assms(4) show ?thesis
    using slider_snapToStep_ok [OF assms(1,2)]
    by (auto simp: handleKeyDown_def split: if_splits)
qed

lemma slider_run_ok:
  assumes "min_prop p \<le> max_prop p" "0 < step_prop p"
    "\<forall>e \<in> set es. pointer_laid_out e"
  shows "\<forall>v \<in> set (slider_run caller p d es). proposal_ok p v"
  using assms
proof (induction es arbitrary: p d)
  case Nil
  then show ?case by simp
next
  case (Cons e es)
  obtain d' r where h: "slider_handle p d e = (d', r)" by (cases "slider_handle p d e")
  show ?case
  proof (cases r)
    case None
    with h Cons show ?thesis by simp
  next
    case (Some v)
    with h Cons.prems have "proposal_ok p v"
      using slider_handle_ok [of p e d d' v] by simp
    moreover have "\<forall>w \<in> set (slider_run caller (p\<lparr>value_prop := caller v\<rparr>) d' es).
        proposal_ok (p\<lparr>value_prop := caller v\<rparr>) w"
      using Cons.prems by (intro Cons.IH) simp_all
    then have "\<forall>w \<in> set (slider_run caller (p\<lparr>value_prop := caller v\<rparr>) d' es). proposal_ok p w"
      by (simp add: proposal_ok_def)
    ultimately show ?thesis using h Some by simp
  qed
qed

text \<open>
  Claim C3, as the specification states it, asks of every slider with \<open>min < max\<close>
  and \<open>step > 0\<close> that each proposed value is a whole number of steps away from
  \<open>min\<close>. With \<open>min = 0\<close>, \<open>max = 1\<close> and \<open>step = 0.3\<close> the key End proposes
  \<open>max = 1\<close>, which is three steps and a third away from \<open>min\<close>.
\<close>

theorem slider_End_off_grid_counterexample:
  "min_prop \<lparr>value_prop = 0, min_prop = 0, max_prop = 1, step_prop = 0.3\<rparr>
     < max_prop \<lparr>value_prop = 0, min_prop = 0, max_prop = 1, step_prop = 0.3\<rparr>
   \<and> 0 < step_prop \<lparr>value_prop = 0, min_prop = 0, max_prop = 1, step_prop = 0.3\<rparr>
   \<and> slider_run (\<lambda>v. v) \<lparr>value_prop = 0, min_prop = 0, max_prop = 1, step_prop = 0.3\<rparr> False
         [KeyDown ''End''] = [1]
   \<and> \<not> on_step_grid 1 0 0.3"
proof -
  have "\<not> on_step_grid 1 0 0.3" by code_simp
  then show ?thesis by (simp add: handleKeyDown_def)
qed

text \<open>
  Claim C3, amended: for every slider with \<open>min < max\<close> and \<open>step > 0\<close>, whatever
  the current value and whatever the caller supplies as the next value, every value
  passed to \<^verbatim>\<open>onChange\<close> in a sequence of wheel, keyboard and pointer events (the
  pointer events on a mounted track of positive width) lies in [\<open>min\<close>, \<open>max\<close>], and
  it differs from \<open>min\<close> by a whole number of steps or it is \<open>max\<close> itself. Hence,
  when \<open>max - min\<close> is a whole number of steps, every such value differs from \<open>min\<close>
  by a whole number of steps.
\<close>

theorem slider_run_proposals:
  assumes "min_prop p < max_prop p" and "0 < step_prop p"
    and "\<forall>e \<in> set es. pointer_laid_out e"
  shows "\<forall>v \<in> set (slider_run caller p d es).
           min_prop p \<le> v \<and> v \<le> max_prop p
           \<and> (v = max_prop p \<or> (\<exists>k::int. v - min_prop p = of_int k * step_prop p))
           \<and> ((\<exists>n::int. max_prop p - min_prop p = of_int n * step_prop p) \<longrightarrow>
                (\<exists>k::int. v - min_prop p = of_int k * step_prop p))"
proof
  fix v
  assume v: "v \<in> set (slider_run caller p d es)"
  from assms(2) have st: "step_prop p \<noteq> 0" by simp
  from assms have "\<forall>v \<in> set (slider_run caller p d es). proposal_ok p v"
    by (intro slider_run_ok) simp_all
  with v have ok: "proposal_ok p v" by blast
  then have range: "min_prop p \<le> v" "v \<le> max_prop p"
    by (simp_all add: proposal_ok_def)
  from ok st have grid: "v = max_prop p \<or> (\<exists>k::int. v - min_prop p = of_int k * step_prop p)"
    by (simp add: proposal_ok_def on_step_grid_iff)
  then have "(\<exists>n::int. max_prop p - min_prop p = of_int n * step_prop p) \<longrightarrow>
      (\<exists>k::int. v - min_prop p = of_int k * step_prop p)"
    by blast
  with range grid
  show "min_prop p \<le> v \<and> v \<le> max_prop p
      \<and> (v = max_prop p \<or> (\<exists>k::int. v - min_prop p = of_int k * step_prop p))
      \<and> ((\<exists>n::int. max_prop p - min_prop p = of_int n * step_prop p) \<longrightarrow>
           (\<exists>k::int. v - min_prop p = of_int k * step_prop p))"
    by blast
qed

text \<open>
  The body-fat slider (5 to 35 in steps of 0.5, 60 steps), started at 12, under a run
  of eight events of which five propose a value, each on the grid; and the slider from
  0 to 1 in steps of 0.3 under the key End, whose proposal 1 is in the range.
\<close>

theorem slider_run_proposals_witness:
  "min_prop \<lparr>value_prop = 12, min_prop = 5, max_prop = 35, step_prop = 0.5\<rparr>
     < max_prop \<lparr>value_prop = 12, min_prop = 5, max_prop = 35, step_prop = 0.5\<rparr>
   \<and> 0 < step_prop \<lparr>value_prop = 12, min_prop = 5, max_prop = 35, step_prop = 0.5\<rparr>
   \<and> (35::real) - 5 = of_int 60 * 0.5
   \<and> slider_run (\<lambda>v. v) \<lparr>value_prop = 12, min_prop = 5, max_prop = 35, step_prop = 0.5\<rparr> False
        [KeyDown ''End'', Wheel 100, MouseDown 30 (Some \<lparr>left = 0, width = 100\<rparr>),
         MouseMove 50 (Some \<lparr>left = 0, width = 100\<rparr>), MouseUp, KeyDown ''PageDown'',
         MouseMove 70 (Some \<lparr>left = 0, width = 100\<rparr>), KeyDown ''Tab'']
       = [35, 34.5, 14, 20, 15]
   \<and> (\<exists>k::int. (35::real) - 5 = of_int k * 0.5)
   \<and> (5::real) \<le> 34.5 \<and> (34.5::real) \<le> 35 \<and> (\<exists>k::int. (34.5::real) - 5 = of_int k * 0.5)
   \<and> (\<exists>k::int. (14::real) - 5 = of_int k * 0.5)
   \<and> (\<exists>k::int. (20::real) - 5 = of_int k * 0.5)
   \<and> (\<exists>k::int. (15::real) - 5 = of_int k * 0.5)
   \<and> slider_run (\<lambda>v. v) \<lparr>value_prop = 0, min_prop = 0, max_prop = 1, step_prop = 0.3\<rparr> False
        [KeyDown ''End''] = [1]
   \<and> (0::real) \<le> 1 \<and> (1::real) \<le> 1"
proof -
  let ?p = "\<lparr>value_prop = 12, min_prop = 5, max_prop = 35, step_prop = 0.5\<rparr>"
  let ?es = "[KeyDown ''End'', Wheel 100, MouseDown 30 (Some \<lparr>left = 0, width = 100\<rparr>),
         MouseMove 50 (Some \<lparr>left = 0, width = 100\<rparr>), MouseUp, KeyDown ''PageDown'',
         MouseMove 70 (Some \<lparr>left = 0, width = 100\<rparr>), KeyDown ''Tab'']"
  let ?q = "\<lparr>value_prop = 0, min_prop = 0, max_prop = 1, step_prop = 0.3\<rparr>"
  have run: "slider_run (\<lambda>v. v) ?p False ?es = [35, 34.5, 14, 20, 15]"
    by (simp add: handleKeyDown_def handleWheel_def handleMouseDown_def handleMouseMove_def
        getValueFromPosition_def slider_snapToStep_def clamp_def Math_round_def)
  have run': "slider_run (\<lambda>v. v) ?q False [KeyDown ''End''] = [1]"
    by (simp add: handleKeyDown_def)
  have n: "\<exists>n::int. max_prop ?p - min_prop ?p = of_int n * step_prop ?p"
    by (rule exI [of _ 60]) simp
  have "\<forall>v \<in> set (slider_run (\<lambda>v. v) ?p False ?es).
           min_prop ?p \<le> v \<and> v \<le> max_prop ?p
           \<and> (v = max_prop ?p \<or> (\<exists>k::int. v - min_prop ?p = of_int k * step_prop ?p))
           \<and> ((\<exists>n::int. max_prop ?p - min_prop ?p = of_int n * step_prop ?p) \<longrightarrow>
                (\<exists>k::int. v - min_prop ?p = of_int k * step_prop ?p))"
    by (rule slider_run_proposals) simp_all
  with n have "\<forall>v \<in> set (slider_run (\<lambda>v. v) ?p False ?es).
      \<exists>k::int. v - min_prop ?p = of_int k * step_prop ?p"
    by blast
  then have grid: "(\<exists>k::int. (35::real) - 5 = of_int k * 0.5)
      \<and> (\<exists>k::int. (34.5::real) - 5 = of_int k * 0.5)
      \<and> (\<exists>k::int. (14::real) - 5 = of_int k * 0.5)
      \<and> (\<exists>k::int. (20::real) - 5 = of_int k * 0.5)
      \<and> (\<exists>k::int. (15::real) - 5 = of_int k * 0.5)"
    unfolding run by simp
  have "\<forall>v \<in> set (slider_run (\<lambda>v. v) ?q False [KeyDown ''End'']).
           min_prop ?q \<le> v \<and> v \<le> max_prop ?q
           \<and> (v = max_prop ?q \<or> (\<exists>k::int. v - min_prop ?q = of_int k * step_prop ?q))
           \<and> ((\<exists>n::int. max_prop ?q - min_prop ?q = of_int n * step_prop ?q) \<longrightarrow>
                (\<exists>k::int. v - min_prop ?q = of_int k * step_prop ?q))"
    by (rule slider_run_proposals) simp_all
  then have range: "(0::real) \<le> 1 \<and> (1::real) \<le> 1"
    by simp
  from run run' grid range show ?thesis by simp
qed

section \<open>The stored height\<close>

lemma heightConfig_grid:
  "min_prop (heightConfig s) \<le> max_prop (heightConfig s)"
  "0 < step_prop (heightConfig s)"
  by (simp_all add: heightConfig_def)

lemma heightConfig_onChange_ok:
  assumes "proposal_ok (heightConfig s) v"
  shows "stored_height_ok (heightConfig_onChange s v)"
  using assms
  by (simp add: proposal_ok_def heightConfig_def heightConfig_onChange_def stored_height_ok_def
      inchesToCm_def split: if_splits)

lemma stored_height_ok_bounds:
  "stored_height_ok s \<Longrightarrow> 152 \<le> heightCm s \<and> heightCm s \<le> 213.36"
  by (simp add: stored_height_ok_def split: if_splits)

lemma handleUnitToggle_ok:
  "toImperial \<noteq> isImperial s \<Longrightarrow> stored_height_ok (handleUnitToggle toImperial s)"
  by (simp add: handleUnitToggle_def stored_height_ok_def inchesToCm_def Let_def)

text \<open>
  Claim C2, as the specification states it, bounds the stored height by 213 cm after
  every operation that sets it. A toggle to imperial from 213 cm snaps 83.86 inches to
  84 inches and stores 213.36 cm; the key End on the height slider of the initial
  state (imperial) proposes 84 inches and stores 213.36 cm as well.
\<close>

theorem stored_height_counterexample:
  "heightCm (handleUnitToggle True (initial_state\<lparr>isImperial := False, heightCm := 213\<rparr>)) = 213.36
   \<and> \<not> (152 \<le> heightCm (handleUnitToggle True (initial_state\<lparr>isImperial := False, heightCm := 213\<rparr>))
        \<and> heightCm (handleUnitToggle True (initial_state\<lparr>isImperial := False, heightCm := 213\<rparr>)) \<le> 213)
   \<and> heightCm (height_slider_event initial_state False (KeyDown ''End'')) = 213.36
   \<and> \<not> (152 \<le> heightCm (height_slider_event initial_state False (KeyDown ''End''))
        \<and> heightCm (height_slider_event initial_state False (KeyDown ''End'')) \<le> 213)"
  by (simp add: handleUnitToggle_def initial_state_def cmToInches_def inchesToCm_def
      snapToStep_def Math_round_def height_slider_event_def heightConfig_def
      heightConfig_onChange_def handleKeyDown_def)

text \<open>
  Claim C2, amended: after a toggle to the other unit system, and after every event of
  the height slider that proposes a value (a pointer event on a mounted track of
  positive width), in either unit system, the stored height lies in [152, 213.36] cm:
  in [152.4, 213.36], which is 60 to 84 inches, when the unit system is then imperial,
  and in [152, 213] when it is metric.
\<close>

theorem stored_height_after_set:
  "(toImperial \<noteq> isImperial s \<longrightarrow>
      stored_height_ok (handleUnitToggle toImperial s)
      \<and> 152 \<le> heightCm (handleUnitToggle toImperial s)
      \<and> heightCm (handleUnitToggle toImperial s) \<le> 213.36)
   \<and> (pointer_laid_out e \<and> snd (slider_handle (heightConfig s) d e) \<noteq> None \<longrightarrow>
      stored_height_ok (height_slider_event s d e)
      \<and> 152 \<le> heightCm (height_slider_event s d e)
      \<and> heightCm (height_slider_event s d e) \<le> 213.36)"
proof (intro conjI impI)
  assume "toImperial \<noteq> isImperial s"
  then show t: "stored_height_ok (handleUnitToggle toImperial s)"
    by (rule handleUnitToggle_ok)
  from stored_height_ok_bounds [OF t]
  show "152 \<le> heightCm (handleUnitToggle toImperial s)"
    and "heightCm (handleUnitToggle toImperial s) \<le> 213.36" by simp_all
next
  assume a: "pointer_laid_out e \<and> snd (slider_handle (heightConfig s) d e) \<noteq> None"
  then obtain d' v where h: "slider_handle (heightConfig s) d e = (d', Some v)"
    by (cases "slider_handle (heightConfig s) d e") auto
  with a have "proposal_ok (heightConfig s) v"
    using slider_handle_ok [of "heightConfig s" e d d' v, OF heightConfig_grid] by simp
  then have "stored_height_ok (heightConfig_onChange s v)"
    by (rule heightConfig_onChange_ok)
  with h show t: "stored_height_ok (height_slider_event s d e)"
    by (simp add: height_slider_event_def)
  from stored_height_ok_bounds [OF t]
  show "152 \<le> heightCm (height_slider_event s d e)"
    and "heightCm (height_slider_event s d e) \<le> 213.36" by simp_all
qed

text \<open>
  The toggle to imperial from 213 cm, and a press at three tenths of the track on the
  height slider of the initial state, which proposes 67 inches.
\<close>

theorem stored_height_after_set_witness:
  "True \<noteq> isImperial (initial_state\<lparr>isImperial := False, heightCm := 213\<rparr>)
   \<and> heightCm (handleUnitToggle True (initial_state\<lparr>isImperial := False, heightCm := 213\<rparr>)) = 213.36
   \<and> stored_height_ok (handleUnitToggle True (initial_state\<lparr>isImperial := False, heightCm := 213\<rparr>))
   \<and> pointer_laid_out (MouseDown 30 (Some \<lparr>left = 0, width = 100\<rparr>))
   \<and> snd (slider_handle (heightConfig initial_state) False (MouseDown 30 (Some \<lparr>left = 0, width = 100\<rparr>)))
       = Some 67
   \<and> heightCm (height_slider_event initial_state False (MouseDown 30 (Some \<lparr>left = 0, width = 100\<rparr>)))
       = 170.18
   \<and> stored_height_ok (height_slider_event initial_state False (MouseDown 30 (Some \<lparr>left = 0, width = 100\<rparr>)))"
proof -
  let ?s = "initial_state\<lparr>isImperial := False, heightCm := 213\<rparr>"
  let ?e = "MouseDown 30 (Some \<lparr>left = 0, width = 100\<rparr>)"
  have h: "snd (slider_handle (heightConfig initial_state) False ?e) = Some 67"
    by (simp add: initial_state_def heightConfig_def handleMouseDown_def getValueFromPosition_def
        slider_snapToStep_def clamp_def Math_round_def cmToInches_def)
  have v: "heightCm (height_slider_event initial_state False ?e) = 170.18"
    unfolding height_slider_event_def h
    by (simp add: initial_state_def heightConfig_onChange_def inchesToCm_def)
  have t: "heightCm (handleUnitToggle True ?s) = 213.36"
    by (simp add: handleUnitToggle_def initial_state_def cmToInches_def inchesToCm_def
        snapToStep_def Math_round_def)
  have i: "True \<noteq> isImperial ?s" by simp
  have l: "pointer_laid_out ?e" by simp
  from stored_height_after_set [where toImperial = True and s = ?s]
    stored_height_after_set [where s = initial_state and e = ?e and d = False] i l h v t
  show ?thesis by simp
qed

end
